theory Spec2Isabelle
  imports Main "HOL-Library.Sublist" "HOL-Library.Word"
begin

section \<open>The deployment script \<open>contracts/src.ts/deploy.ts\<close>\<close>

text \<open>
  The script is sequential glue around three libraries: waffle's \<open>deployContract\<close>,
  ethers' contract objects and ABI coder, and Axios for HTTP. The model keeps the
  script's own control flow and data, and takes everything the libraries and the outside
  world answer as a parameter (the record \<open>world\<close>). Every call that leaves the script
  is written to a trace of events, in the order the script makes it; the answer to a call
  is a function of the trace up to and including that call, so an answer may depend on
  everything that happened before.

  A thrown JavaScript value is a value of type \<open>error\<close>; a function that can throw
  returns \<open>error + 'a\<close>, with \<open>Inl\<close> for what it throws. \<open>undefined\<close> and \<open>null\<close> are
  \<open>None\<close>.
\<close>

subsection \<open>Values, errors and artifacts\<close>

text \<open>
  What can be thrown: a \<open>TypeError\<close> or an \<open>Error\<close> with its message, or any other value.
  Of another value only its conversion to a string matters here: the conversion gives a
  string (\<open>throw "abc"\<close>, an object with its own \<open>toString\<close>), or it throws in turn (a
  \<open>Symbol\<close>, an object without a prototype, a \<open>toString\<close> that throws).
\<close>

datatype error =
    TypeError string
  | JsError string
  | Thrown "error + string"

text \<open>
  The conversion of a thrown value to a string, as in \<open>"..." + err\<close>. For an error object
  it is \<open>Error.prototype.toString\<close>: the name alone when the message is empty, and the
  name, a colon, a space and the message otherwise.
\<close>

fun error_text :: "error \<Rightarrow> error + string" where
  "error_text (TypeError m) = Inr (if m = [] then ''TypeError'' else ''TypeError: '' @ m)"
| "error_text (JsError m) = Inr (if m = [] then ''Error'' else ''Error: '' @ m)"
| "error_text (Thrown conversion) = conversion"

text \<open>
  The values the script hands to the libraries as contract arguments: a string or
  \<open>undefined\<close> (an address read from a table or from the environment), a \<open>Buffer\<close> (what
  \<open>abi.rawEncode\<close> returns) and a \<open>BigNumber\<close>.
\<close>

datatype val =
    Undefined
  | Str string
  | Buffer "8 word list"
  | BigNumber int

fun of_opt :: "string option \<Rightarrow> val" where
  "of_opt None = Undefined"
| "of_opt (Some s) = Str s"

text \<open>A value inside a template literal: \<open>`${x}`\<close>.\<close>

fun template :: "string option \<Rightarrow> string" where
  "template None = ''undefined''"
| "template (Some s) = s"

text \<open>\<open>a || b\<close> on a string that may be undefined: the empty string is falsy.\<close>

fun js_or :: "string option \<Rightarrow> string \<Rightarrow> string" where
  "js_or None b = b"
| "js_or (Some a) b = (if a = [] then b else a)"

text \<open>\<open>s.includes(pat)\<close>: \<open>pat\<close> occurs in \<open>s\<close> as a contiguous substring.\<close>

fun includes_str :: "string \<Rightarrow> string \<Rightarrow> bool" where
  "includes_str [] pat = (pat = [])"
| "includes_str (c # s) pat = (take (length pat) (c # s) = pat \<or> includes_str s pat)"

text \<open>\<open>ethers.constants.HashZero\<close>: \<open>0x\<close> and 64 zeros.\<close>

definition HashZero :: string where
  "HashZero = ''0x'' @ replicate 64 (CHR ''0'')"

text \<open>\<open>parseEther\<close> and \<open>bigNumberify\<close> of the decimal string of \<open>n\<close>.\<close>

definition parseEther :: "int \<Rightarrow> val" where
  "parseEther n = BigNumber (n * 10 ^ 18)"

definition bigNumberify :: "int \<Rightarrow> val" where
  "bigNumberify n = BigNumber n"

text \<open>A compiled contract (a JSON file of \<open>../build\<close>): only what the script reads.\<close>

record abi_param =
  param_name :: string
  param_type :: string

record abi_entry =
  entry_type :: string
  inputs :: "abi_param list"

record contract_code =
  abi :: "abi_entry list"
  interface :: "abi_entry list"
  bytecode :: string

text \<open>The module's constants, each the result of a \<open>require\<close>.\<close>

record artifacts =
  ERC20MintableContract :: contract_code
  upgradeGatekeeperContractCode :: contract_code
  franklinContractCode :: contract_code
  verifierContractCode :: contract_code
  governanceContractCode :: contract_code
  proxyContractCode :: contract_code
  upgradeGatekeeperTestContractCode :: contract_code
  franklinTestContractCode :: contract_code
  verifierTestContractCode :: contract_code
  governanceTestContractCode :: contract_code

record wallet =
  wallet_address :: string

text \<open>A transaction as the provider returns it on submission.\<close>

record tx =
  hash :: string

text \<open>
  An \<open>ethers.Contract\<close>: its address (whatever the script passed, \<open>undefined\<close> included),
  its interface, its signer and, for a contract that \<open>deployContract\<close> returned, the
  deployment transaction.
\<close>

record contract =
  contract_address :: "string option"
  contract_interface :: "abi_entry list"
  signer :: wallet
  deployTransaction :: "tx option"

subsection \<open>The outside world\<close>

text \<open>The body of the \<open>verifysourcecode\<close> request, before \<open>qs.stringify\<close>.\<close>

record post_data =
  apikey :: "string option"
  module_field :: string
  action :: string
  contractaddress :: "string option"
  sourceCode :: string
  codeformat :: string
  contractname_field :: string
  compilerversion :: string
  constructorArguements :: "string option"

text \<open>
  The \<open>data\<close> of an Etherscan answer. \<open>status\<close> is the number that JavaScript's loose
  comparison \<open>status != 1\<close> sees.
\<close>

record api_response =
  status :: int
  message :: string
  result :: string

datatype event =
    DeployContract wallet "contract_code option" "val list option" "nat option"
  | ContractCall contract string "val list"
  | Wait tx
  | AxiosPost string post_data
  | AxiosGet string
  | Sleep nat
  | ConsoleLog string "api_response option"
  | ConsoleError string

text \<open>
  What the script cannot decide: the environment variables, the answers of the chain and
  of Etherscan, and the libraries' pure functions. \<open>getSolidityInput\<close> (gathering and
  serialising the Solidity sources) is kept as one answer of the file system.
\<close>

record world =
  env :: "string \<Rightarrow> string option"
  deployContract_reply :: "event list \<Rightarrow> error + contract"
  call_reply :: "event list \<Rightarrow> error + tx"
  wait_reply :: "event list \<Rightarrow> error + unit"
  post_reply :: "event list \<Rightarrow> error + api_response"
  get_reply :: "event list \<Rightarrow> error + api_response"
  getSolidityInput :: "string \<Rightarrow> error + string"
  rawEncode :: "string list \<Rightarrow> val list \<Rightarrow> error + 8 word list"
  defaultAbiCoder_encode :: "abi_param list \<Rightarrow> val list option \<Rightarrow> error + string"

text \<open>The calls that leave the script: each appends its event and reads the answer.\<close>

definition deployContract ::
  "world \<Rightarrow> wallet \<Rightarrow> contract_code option \<Rightarrow> val list option \<Rightarrow> nat option \<Rightarrow> event list
    \<Rightarrow> (error + contract) \<times> event list" where
  "deployContract w wl code args gasLimit tr =
     (let tr' = tr @ [DeployContract wl code args gasLimit] in (deployContract_reply w tr', tr'))"

definition call ::
  "world \<Rightarrow> contract \<Rightarrow> string \<Rightarrow> val list \<Rightarrow> event list \<Rightarrow> (error + tx) \<times> event list" where
  "call w c meth args tr =
     (let tr' = tr @ [ContractCall c meth args] in (call_reply w tr', tr'))"

definition wait :: "world \<Rightarrow> tx \<Rightarrow> event list \<Rightarrow> (error + unit) \<times> event list" where
  "wait w t tr = (let tr' = tr @ [Wait t] in (wait_reply w tr', tr'))"

definition Axios_post ::
  "world \<Rightarrow> string \<Rightarrow> post_data \<Rightarrow> event list \<Rightarrow> (error + api_response) \<times> event list" where
  "Axios_post w url d tr = (let tr' = tr @ [AxiosPost url d] in (post_reply w tr', tr'))"

definition Axios_get ::
  "world \<Rightarrow> string \<Rightarrow> event list \<Rightarrow> (error + api_response) \<times> event list" where
  "Axios_get w url tr = (let tr' = tr @ [AxiosGet url] in (get_reply w tr', tr'))"

definition sleep :: "nat \<Rightarrow> event list \<Rightarrow> event list" where
  "sleep ms tr = tr @ [Sleep ms]"

text \<open>\<open>await (await c.meth(args)).wait()\<close>: submit, then wait for the receipt.\<close>

definition call_and_wait ::
  "world \<Rightarrow> contract \<Rightarrow> string \<Rightarrow> val list \<Rightarrow> event list \<Rightarrow> (error + unit) \<times> event list" where
  "call_and_wait w c meth args tr =
     (case call w c meth args tr of
        (Inl e, tr1) \<Rightarrow> (Inl e, tr1)
      | (Inr t, tr1) \<Rightarrow> wait w t tr1)"

subsection \<open>The class \<open>Deployer\<close>\<close>

record deployer =
  wallet :: wallet
  bytecodes :: "string \<Rightarrow> contract_code option"
  addresses :: "string \<Rightarrow> string option"
  deployTransactionHash :: "string \<Rightarrow> string option"

text \<open>The constructor. A table is the map of its own keys; every other key is undefined.\<close>

definition Deployer :: "artifacts \<Rightarrow> (string \<Rightarrow> string option) \<Rightarrow> wallet \<Rightarrow> bool \<Rightarrow> deployer" where
  "Deployer arts process_env wl isTest =
     \<lparr> wallet = wl,
       bytecodes = map_of
         [(''GovernanceTarget'', if isTest then governanceTestContractCode arts else governanceContractCode arts),
          (''VerifierTarget'', if isTest then verifierTestContractCode arts else verifierContractCode arts),
          (''FranklinTarget'', if isTest then franklinTestContractCode arts else franklinContractCode arts),
          (''Governance'', proxyContractCode arts),
          (''Verifier'', proxyContractCode arts),
          (''Franklin'', proxyContractCode arts),
          (''UpgradeGatekeeper'',
             if isTest then upgradeGatekeeperTestContractCode arts else upgradeGatekeeperContractCode arts)],
       addresses =
         (\<lambda>_. None)
           (''GovernanceTarget'' := process_env ''GOVERNANCE_TARGET_ADDR'',
            ''VerifierTarget'' := process_env ''VERIFIER_TARGET_ADDR'',
            ''FranklinTarget'' := process_env ''CONTRACT_TARGET_ADDR'',
            ''Governance'' := process_env ''GOVERNANCE_ADDR'',
            ''Verifier'' := process_env ''VERIFIER_ADDR'',
            ''Franklin'' := process_env ''CONTRACT_ADDR'',
            ''UpgradeGatekeeper'' := process_env ''UPGRADE_GATEKEEPER_ADDR''),
       deployTransactionHash =
         (\<lambda>_. None)
           (''Governance'' := process_env ''GOVERNANCE_GENESIS_TX_HASH'',
            ''Franklin'' := process_env ''CONTRACT_GENESIS_TX_HASH'') \<rparr>"

definition getDeployTransactionHash :: "deployer \<Rightarrow> string \<Rightarrow> string option" where
  "getDeployTransactionHash d name = deployTransactionHash d name"

text \<open>\<open>new ethers.Contract(address, interface, wallet)\<close>.\<close>

definition new_Contract :: "string option \<Rightarrow> abi_entry list \<Rightarrow> wallet \<Rightarrow> contract" where
  "new_Contract a i wl =
     \<lparr> contract_address = a, contract_interface = i, signer = wl, deployTransaction = None \<rparr>"

text \<open>Reading \<open>.interface\<close> of a missing table entry throws.\<close>

definition getDeployedProxyContract :: "deployer \<Rightarrow> string \<Rightarrow> error + contract" where
  "getDeployedProxyContract d name =
     (case bytecodes d (name @ ''Target'') of
        None \<Rightarrow> Inl (TypeError ''Cannot read property interface of undefined'')
      | Some code \<Rightarrow> Inr (new_Contract (addresses d name) (interface code) (wallet d)))"

definition getDeployedContract :: "deployer \<Rightarrow> string \<Rightarrow> error + contract" where
  "getDeployedContract d name =
     (case bytecodes d name of
        None \<Rightarrow> Inl (TypeError ''Cannot read property interface of undefined'')
      | Some code \<Rightarrow> Inr (new_Contract (addresses d name) (interface code) (wallet d)))"

text \<open>
  \<open>initializationArgs\<close> builds the whole table, then reads one entry: the types and the
  values of the arguments of \<open>initialize\<close>.
\<close>

definition initializationArgs :: "world \<Rightarrow> deployer \<Rightarrow> string \<Rightarrow> (string list \<times> val list) option" where
  "initializationArgs w d contractName =
     map_of
       [(''Governance'', ([''address''], [Str (wallet_address (wallet d))])),
        (''Verifier'', ([], [])),
        (''Franklin'',
           ([''address'', ''address'', ''address'', ''bytes32''],
            [of_opt (addresses d ''Governance''),
             of_opt (addresses d ''Verifier''),
             of_opt (env w ''OPERATOR_FRANKLIN_ADDRESS''),
             Str (js_or (env w ''GENESIS_ROOT'') HashZero)]))]
       contractName"

text \<open>Destructuring \<open>undefined\<close> throws; \<open>abi.rawEncode\<close> may throw.\<close>

definition encodedInitializationArgs :: "world \<Rightarrow> deployer \<Rightarrow> string \<Rightarrow> error + 8 word list" where
  "encodedInitializationArgs w d contractName =
     (case initializationArgs w d contractName of
        None \<Rightarrow> Inl (TypeError ''undefined is not iterable'')
      | Some (initArgs, initArgsValues) \<Rightarrow> rawEncode w initArgs initArgsValues)"

text \<open>
  \<open>constructorArgs\<close> also builds its whole table before reading one entry, so the three
  calls of \<open>encodedInitializationArgs\<close> run, in the order of the source, whatever the name.
\<close>

definition constructorArgs :: "world \<Rightarrow> deployer \<Rightarrow> string \<Rightarrow> error + val list option" where
  "constructorArgs w d contractName =
     (case encodedInitializationArgs w d ''Governance'' of
        Inl e \<Rightarrow> Inl e
      | Inr g \<Rightarrow>
     (case encodedInitializationArgs w d ''Verifier'' of
        Inl e \<Rightarrow> Inl e
      | Inr v \<Rightarrow>
     (case encodedInitializationArgs w d ''Franklin'' of
        Inl e \<Rightarrow> Inl e
      | Inr f \<Rightarrow>
          Inr (map_of
            [(''GovernanceTarget'', []),
             (''VerifierTarget'', []),
             (''FranklinTarget'', []),
             (''Governance'', [of_opt (addresses d ''GovernanceTarget''), Buffer g]),
             (''Verifier'', [of_opt (addresses d ''VerifierTarget''), Buffer v]),
             (''Franklin'', [of_opt (addresses d ''FranklinTarget''), Buffer f]),
             (''UpgradeGatekeeper'', [of_opt (addresses d ''Franklin'')])]
            contractName))))"

text \<open>\<open>null\<close> is \<open>None\<close>; \<open>.slice(2)\<close> drops the first two characters.\<close>

definition encodedConstructorArgs :: "world \<Rightarrow> deployer \<Rightarrow> string \<Rightarrow> error + string option" where
  "encodedConstructorArgs w d contractName =
     (case constructorArgs w d contractName of
        Inl e \<Rightarrow> Inl e
      | Inr args \<Rightarrow>
     (case bytecodes d contractName of
        None \<Rightarrow> Inl (TypeError ''Cannot read property abi of undefined'')
      | Some code \<Rightarrow>
     (case filter (\<lambda>i. entry_type i = ''constructor'') (abi code) of
        [] \<Rightarrow> Inr None
      | i0 # _ \<Rightarrow>
     (case defaultAbiCoder_encode w (inputs i0) args of
        Inl e \<Rightarrow> Inl e
      | Inr encoded \<Rightarrow> Inr (Some (drop 2 encoded))))))"




text \<open>
  One line of \<open>deployUpgradeGatekeeper\<close> each:
  \<open>await (await this.getDeployedContract(name).transferMastership(contract.address)).wait()\<close> and
  \<open>await (await contract.addUpgradeable(this.getDeployedContract(name).address)).wait()\<close>.
\<close>

definition transferMastership_of ::
  "world \<Rightarrow> deployer \<Rightarrow> string \<Rightarrow> contract \<Rightarrow> event list \<Rightarrow> (error + unit) \<times> event list" where
  "transferMastership_of w d name c tr =
     (case getDeployedContract d name of
        Inl e \<Rightarrow> (Inl e, tr)
      | Inr p \<Rightarrow> call_and_wait w p ''transferMastership'' [of_opt (contract_address c)] tr)"

definition addUpgradeable_of ::
  "world \<Rightarrow> deployer \<Rightarrow> contract \<Rightarrow> string \<Rightarrow> event list \<Rightarrow> (error + unit) \<times> event list" where
  "addUpgradeable_of w d c name tr =
     (case getDeployedContract d name of
        Inl e \<Rightarrow> (Inl e, tr)
      | Inr p \<Rightarrow> call_and_wait w c ''addUpgradeable'' [of_opt (contract_address p)] tr)"

definition deployUpgradeGatekeeper ::
  "world \<Rightarrow> deployer \<Rightarrow> event list \<Rightarrow> (error + contract) \<times> deployer \<times> event list" where
  "deployUpgradeGatekeeper w d tr =
     (case constructorArgs w d ''UpgradeGatekeeper'' of
        Inl e \<Rightarrow> (Inl e, d, tr)
      | Inr args \<Rightarrow>
     (case deployContract w (wallet d) (bytecodes d ''UpgradeGatekeeper'') args (Some 3000000) tr of
        (Inl e, tr1) \<Rightarrow> (Inl e, d, tr1)
      | (Inr c, tr1) \<Rightarrow>
     (let d1 = d\<lparr>addresses := (addresses d)(''UpgradeGatekeeper'' := contract_address c)\<rparr> in
     (case transferMastership_of w d1 ''Governance'' c tr1 of
        (Inl e, tr2) \<Rightarrow> (Inl e, d1, tr2)
      | (Inr _, tr2) \<Rightarrow>
     (case transferMastership_of w d1 ''Verifier'' c tr2 of
        (Inl e, tr3) \<Rightarrow> (Inl e, d1, tr3)
      | (Inr _, tr3) \<Rightarrow>
     (case transferMastership_of w d1 ''Franklin'' c tr3 of
        (Inl e, tr4) \<Rightarrow> (Inl e, d1, tr4)
      | (Inr _, tr4) \<Rightarrow>
     (case addUpgradeable_of w d1 c ''Governance'' tr4 of
        (Inl e, tr5) \<Rightarrow> (Inl e, d1, tr5)
      | (Inr _, tr5) \<Rightarrow>
     (case addUpgradeable_of w d1 c ''Verifier'' tr5 of
        (Inl e, tr6) \<Rightarrow> (Inl e, d1, tr6)
      | (Inr _, tr6) \<Rightarrow>
     (case addUpgradeable_of w d1 c ''Franklin'' tr6 of
        (Inl e, tr7) \<Rightarrow> (Inl e, d1, tr7)
      | (Inr _, tr7) \<Rightarrow> (Inr c, d1, tr7))))))))))"

subsection \<open>Publishing the sources to Etherscan\<close>

text \<open>
  The \<open>while (retriesLeft --> 0)\<close> loop of the success branch: the test reads the counter,
  then decrements it. \<open>status\<close> is the loop's variable, undefined before the first answer.
\<close>

definition checkverifystatus_url :: "string \<Rightarrow> string" where
  "checkverifystatus_url guid =
     ''http://api.etherscan.io/api?module=contract&&action=checkverifystatus&&guid='' @ guid"

function checkverifystatus_loop ::
  "world \<Rightarrow> string \<Rightarrow> int \<Rightarrow> api_response option \<Rightarrow> event list
    \<Rightarrow> (error + api_response option) \<times> event list" where
  "checkverifystatus_loop w guid retriesLeft st tr =
     (if retriesLeft > 0 then
        (case Axios_get w (checkverifystatus_url guid) tr of
           (Inl e, tr1) \<Rightarrow> (Inl e, tr1)
         | (Inr st', tr1) \<Rightarrow>
             if \<not> includes_str (result st') ''Pending in queue'' then (Inr (Some st'), tr1)
             else checkverifystatus_loop w guid (retriesLeft - 1) (Some st') (sleep 5000 tr1))
      else (Inr st, tr))"
  by pat_completeness auto
termination
  by (relation "measure (\<lambda>(w, guid, retriesLeft, st, tr). nat retriesLeft)") auto

text \<open>
  The request of \<open>publishSourceCodeToEtherscan\<close>, its locals \<open>contractPath\<close>,
  \<open>etherscanApiUrl\<close> and \<open>data\<close>: \<open>network === 'mainnet'\<close> is false for an undefined
  network.
\<close>

definition contractPath :: "string \<Rightarrow> string" where
  "contractPath contractname = ''contracts/'' @ contractname @ ''.sol''"

definition etherscanApiUrl :: "world \<Rightarrow> string" where
  "etherscanApiUrl w =
     (let network = env w ''ETH_NETWORK'' in
      if network = Some ''mainnet'' then ''https://api.etherscan.io/api''
      else ''https://api-'' @ template network @ ''.etherscan.io/api'')"

definition verifysourcecode_data ::
  "world \<Rightarrow> deployer \<Rightarrow> string \<Rightarrow> string \<Rightarrow> string option \<Rightarrow> post_data" where
  "verifysourcecode_data w d contractname src constructorArguments =
     \<lparr> apikey = env w ''ETHERSCAN_API_KEY'',
       module_field = ''contract'',
       action = ''verifysourcecode'',
       contractaddress = addresses d contractname,
       sourceCode = src,
       codeformat = ''solidity-standard-json-input'',
       contractname_field = contractPath contractname @ '':'' @ contractname,
       compilerversion = ''v0.5.16+commit.9c3226ce'',
       constructorArguements = constructorArguments \<rparr>"

text \<open>
  \<open>publishSourceCodeToEtherscan\<close> calls itself, and nothing in the source bounds the
  depth of the calls: a run that does not return is the value \<open>None\<close>. \<open>retriesLeft\<close>
  is a local of each call, as in the source.
\<close>

partial_function (option) publishSourceCodeToEtherscan ::
  "world \<Rightarrow> deployer \<Rightarrow> string \<Rightarrow> event list \<Rightarrow> ((error + unit) \<times> event list) option" where
  "publishSourceCodeToEtherscan w d contractname tr =
     (case getSolidityInput w (contractPath contractname) of
        Inl e \<Rightarrow> Some (Inl e, tr)
      | Inr src \<Rightarrow>
     (case encodedConstructorArgs w d contractname of
        Inl e \<Rightarrow> Some (Inl e, tr)
      | Inr constructorArguments \<Rightarrow>
     (case Axios_post w (etherscanApiUrl w)
             (verifysourcecode_data w d contractname src constructorArguments) tr of
        (Inl e, tr1) \<Rightarrow> Some (Inl e, tr1)
      | (Inr r, tr1) \<Rightarrow>
     (let retriesLeft = (20::int) in
      if status r \<noteq> 1 then
        (if includes_str (result r) ''Unable to locate ContractCode'' then
           (let tr2 = sleep 15000 tr1 in
            if retriesLeft > 0 then
              (let retriesLeft = retriesLeft - 1 in
               publishSourceCodeToEtherscan w d contractname tr2)
            else Some (Inr (), tr2))
         else
           Some (Inr (), tr1 @ [ConsoleLog (''Problem publishing '' @ contractname @ '':'') (Some r)]))
      else
        (case checkverifystatus_loop w (result r) 10 None tr1 of
           (Inl e, tr2) \<Rightarrow> Some (Inl e, tr2)
         | (Inr st, tr2) \<Rightarrow>
             Some (Inr (), tr2 @
               [ConsoleLog (''Published '' @ contractname @ '' sources on https://''
                   @ template (env w ''ETH_NETWORK'') @ ''.etherscan.io/address/''
                   @ template (addresses d contractname) @ '' with status'') st]))))))"

subsection \<open>The test tokens\<close>

text \<open>
  Each of the three functions is a \<open>try\<close> block and a \<open>catch\<close> that writes to the console.
  The block is a function of its own here. The \<open>catch\<close> first builds its message,
  \<open>"Add token error:" + err\<close>: when the conversion of \<open>err\<close> to a string throws, nothing is
  written and that error leaves the function. A function whose \<open>catch\<close> wrote its
  message returns \<open>undefined\<close>.
\<close>

definition addTestERC20Token_try ::
  "world \<Rightarrow> artifacts \<Rightarrow> wallet \<Rightarrow> contract \<Rightarrow> event list \<Rightarrow> (error + contract) \<times> event list" where
  "addTestERC20Token_try w arts wl governance tr =
     (case deployContract w wl (Some (ERC20MintableContract arts)) (Some []) (Some 3000000) tr of
        (Inl e, tr1) \<Rightarrow> (Inl e, tr1)
      | (Inr erc20, tr1) \<Rightarrow>
     (case call w erc20 ''mint'' [Str (wallet_address wl), parseEther 3000000000] tr1 of
        (Inl e, tr2) \<Rightarrow> (Inl e, tr2)
      | (Inr _, tr2) \<Rightarrow>
     (case call_and_wait w governance ''addToken'' [of_opt (contract_address erc20)] tr2 of
        (Inl e, tr3) \<Rightarrow> (Inl e, tr3)
      | (Inr _, tr3) \<Rightarrow> (Inr erc20, tr3))))"

definition addTestERC20Token ::
  "world \<Rightarrow> artifacts \<Rightarrow> wallet \<Rightarrow> contract \<Rightarrow> event list
    \<Rightarrow> (error + contract option) \<times> event list" where
  "addTestERC20Token w arts wl governance tr =
     (case addTestERC20Token_try w arts wl governance tr of
        (Inr erc20, tr') \<Rightarrow> (Inr (Some erc20), tr')
      | (Inl err, tr') \<Rightarrow>
          (case error_text err of
             Inl e \<Rightarrow> (Inl e, tr')
           | Inr text_of_err \<Rightarrow> (Inr None, tr' @ [ConsoleError (''Add token error:'' @ text_of_err)])))"

definition mintTestERC20Token_try ::
  "world \<Rightarrow> wallet \<Rightarrow> contract \<Rightarrow> event list \<Rightarrow> (error + unit) \<times> event list" where
  "mintTestERC20Token_try w wl erc20 tr =
     (case call w erc20 ''mint'' [Str (wallet_address wl), parseEther 3000000000] tr of
        (Inl e, tr1) \<Rightarrow> (Inl e, tr1)
      | (Inr txCall, tr1) \<Rightarrow> wait w txCall tr1)"

definition mintTestERC20Token ::
  "world \<Rightarrow> wallet \<Rightarrow> contract \<Rightarrow> event list \<Rightarrow> (error + unit) \<times> event list" where
  "mintTestERC20Token w wl erc20 tr =
     (case mintTestERC20Token_try w wl erc20 tr of
        (Inr u, tr') \<Rightarrow> (Inr (), tr')
      | (Inl err, tr') \<Rightarrow>
          (case error_text err of
             Inl e \<Rightarrow> (Inl e, tr')
           | Inr text_of_err \<Rightarrow> (Inr (), tr' @ [ConsoleError (''Mint token error:'' @ text_of_err)])))"

definition addTestNotApprovedERC20Token_try ::
  "world \<Rightarrow> artifacts \<Rightarrow> wallet \<Rightarrow> event list \<Rightarrow> (error + contract) \<times> event list" where
  "addTestNotApprovedERC20Token_try w arts wl tr =
     (case deployContract w wl (Some (ERC20MintableContract arts)) (Some []) None tr of
        (Inl e, tr1) \<Rightarrow> (Inl e, tr1)
      | (Inr erc20, tr1) \<Rightarrow>
     (case call w erc20 ''mint'' [Str (wallet_address wl), bigNumberify 1000000000] tr1 of
        (Inl e, tr2) \<Rightarrow> (Inl e, tr2)
      | (Inr _, tr2) \<Rightarrow> (Inr erc20, tr2)))"

definition addTestNotApprovedERC20Token ::
  "world \<Rightarrow> artifacts \<Rightarrow> wallet \<Rightarrow> event list \<Rightarrow> (error + contract option) \<times> event list" where
  "addTestNotApprovedERC20Token w arts wl tr =
     (case addTestNotApprovedERC20Token_try w arts wl tr of
        (Inr erc20, tr') \<Rightarrow> (Inr (Some erc20), tr')
      | (Inl err, tr') \<Rightarrow>
          (case error_text err of
             Inl e \<Rightarrow> (Inl e, tr')
           | Inr text_of_err \<Rightarrow> (Inr None, tr' @ [ConsoleError (''Add token error:'' @ text_of_err)])))"

subsection \<open>Observations on a trace\<close>

text \<open>
  A submitted transaction is awaited when the very next thing the script does is to wait
  for a receipt. \<open>deployContract\<close> waits for the deployment inside the library and is one
  event.
\<close>

fun receipts_awaited :: "event list \<Rightarrow> bool" where
  "receipts_awaited [] = True"
| "receipts_awaited (ContractCall c m a # rest) =
     (case rest of Wait t # rest' \<Rightarrow> receipts_awaited rest' | _ \<Rightarrow> False)"
| "receipts_awaited (e # rest) = receipts_awaited rest"

text \<open>
  What an event does on the chain: a deployment of some code with some arguments, a call
  of a method of the contract at some address, or the wait for a receipt.
\<close>

datatype step =
    Deploys "contract_code option" "val list option"
  | Calls "string option" string "val list"
  | Awaits
  | Off_chain

fun step_of :: "event \<Rightarrow> step" where
  "step_of (DeployContract wl code args gas) = Deploys code args"
| "step_of (ContractCall c m a) = Calls (contract_address c) m a"
| "step_of (Wait t) = Awaits"
| "step_of e = Off_chain"


fun is_get :: "event \<Rightarrow> bool" where
  "is_get (AxiosGet u) = True"
| "is_get e = False"

text \<open>
  Polls of the address \<open>url\<close> with a pause of \<open>ms\<close> after each: nothing else, and no two
  polls in a row.
\<close>

fun polls_spaced :: "string \<Rightarrow> nat \<Rightarrow> event list \<Rightarrow> bool" where
  "polls_spaced url ms [] = True"
| "polls_spaced url ms [AxiosGet u] = (u = url)"
| "polls_spaced url ms (AxiosGet u # Sleep n # rest) = (u = url \<and> n = ms \<and> polls_spaced url ms rest)"
| "polls_spaced url ms es = False"

text \<open>The answer to the last call of a trace that ends in a poll was still pending.\<close>

definition pending_at :: "world \<Rightarrow> event list \<Rightarrow> bool" where
  "pending_at w tr =
     (case get_reply w tr of
        Inl e \<Rightarrow> False
      | Inr st \<Rightarrow> includes_str (result st) ''Pending in queue'')"

text \<open>
  Polling went on only while the answer was pending: whenever anything follows a poll
  in the events \<open>es\<close> that come after \<open>tr\<close>, the answer to that poll was pending.
\<close>

fun polled_while_pending :: "world \<Rightarrow> event list \<Rightarrow> event list \<Rightarrow> bool" where
  "polled_while_pending w tr [] = True"
| "polled_while_pending w tr (e # es) =
     ((is_get e \<and> es \<noteq> [] \<longrightarrow> pending_at w (tr @ [e])) \<and> polled_while_pending w (tr @ [e]) es)"

subsection \<open>A sample deployment\<close>

text \<open>
  Concrete artifacts, environment and answers, on which the definitions are run. The
  targets have no constructor, the proxy and the gatekeeper have one, as in the
  contracts the script deploys. The sample encoder refuses an undefined argument.
\<close>

definition function_only_abi :: "abi_entry list" where
  "function_only_abi = [\<lparr> entry_type = ''function'', inputs = [] \<rparr>]"

definition proxy_abi :: "abi_entry list" where
  "proxy_abi =
     [\<lparr> entry_type = ''function'', inputs = [] \<rparr>,
      \<lparr> entry_type = ''constructor'',
        inputs = [\<lparr> param_name = ''target'', param_type = ''address'' \<rparr>,
                  \<lparr> param_name = ''targetInitializationParameters'', param_type = ''bytes'' \<rparr>] \<rparr>]"

definition gatekeeper_abi :: "abi_entry list" where
  "gatekeeper_abi =
     [\<lparr> entry_type = ''constructor'',
        inputs = [\<lparr> param_name = ''_mainContractAddress'', param_type = ''address'' \<rparr>] \<rparr>,
      \<lparr> entry_type = ''function'', inputs = [] \<rparr>]"

definition sample_code :: "abi_entry list \<Rightarrow> contract_code" where
  "sample_code a = \<lparr> abi = a, interface = a, bytecode = ''60'' \<rparr>"

definition sample_artifacts :: artifacts where
  "sample_artifacts =
     \<lparr> ERC20MintableContract = sample_code function_only_abi,
       upgradeGatekeeperContractCode = sample_code gatekeeper_abi,
       franklinContractCode = sample_code function_only_abi,
       verifierContractCode = sample_code function_only_abi,
       governanceContractCode = sample_code function_only_abi,
       proxyContractCode = sample_code proxy_abi,
       upgradeGatekeeperTestContractCode = sample_code gatekeeper_abi,
       franklinTestContractCode = sample_code function_only_abi,
       verifierTestContractCode = sample_code function_only_abi,
       governanceTestContractCode = sample_code function_only_abi \<rparr>"

definition sample_env :: "string \<Rightarrow> string option" where
  "sample_env =
     map_of
       [(''GOVERNANCE_TARGET_ADDR'', ''0x01''),
        (''VERIFIER_TARGET_ADDR'', ''0x02''),
        (''CONTRACT_TARGET_ADDR'', ''0x03''),
        (''GOVERNANCE_ADDR'', ''0x04''),
        (''VERIFIER_ADDR'', ''0x05''),
        (''CONTRACT_ADDR'', ''0x06''),
        (''UPGRADE_GATEKEEPER_ADDR'', ''0x07''),
        (''OPERATOR_FRANKLIN_ADDRESS'', ''0x08''),
        (''GENESIS_ROOT'', ''0x09''),
        (''ETH_NETWORK'', ''rinkeby''),
        (''ETHERSCAN_API_KEY'', ''KEY'')]"

definition sample_wallet :: wallet where
  "sample_wallet = \<lparr> wallet_address = ''0xaa'' \<rparr>"

definition sample_world :: world where
  "sample_world =
     \<lparr> env = sample_env,
       deployContract_reply =
         (\<lambda>tr. Inr \<lparr> contract_address = Some (''0x'' @ replicate (length tr) (CHR ''c'')),
                     contract_interface = [],
                     signer = sample_wallet,
                     deployTransaction = Some \<lparr> hash = ''0x'' @ replicate (length tr) (CHR ''d'') \<rparr> \<rparr>),
       call_reply = (\<lambda>tr. Inr \<lparr> hash = ''0x'' @ replicate (length tr) (CHR ''7'') \<rparr>),
       wait_reply = (\<lambda>tr. Inr ()),
       post_reply = (\<lambda>tr. Inr \<lparr> status = 1, message = ''OK'', result = ''guid'' \<rparr>),
       get_reply =
         (\<lambda>tr. Inr (if length tr < 4
                     then \<lparr> status = 0, message = ''NOTOK'', result = ''Pending in queue'' \<rparr>
                     else \<lparr> status = 1, message = ''OK'', result = ''Pass - Verified'' \<rparr>)),
       getSolidityInput = (\<lambda>path. Inr ''{}''),
       rawEncode =
         (\<lambda>tys vals. if Undefined \<in> set vals
                      then Inl (TypeError ''Cannot read property toString of undefined'')
                      else Inr (replicate (length vals) 32)),
       defaultAbiCoder_encode =
         (\<lambda>ins args. case args of
                        None \<Rightarrow> Inl (JsError ''types/values length mismatch'')
                      | Some a \<Rightarrow>
                          if length a \<noteq> length ins then Inl (JsError ''types/values length mismatch'')
                          else Inr (''0x'' @ replicate (length a) (CHR ''e''))) \<rparr>"

definition sample_deployer :: deployer where
  "sample_deployer = Deployer sample_artifacts sample_env sample_wallet False"

text \<open>A token that was deployed before.\<close>

definition sample_token :: contract where
  "sample_token = new_Contract (Some ''0x0e'') function_only_abi sample_wallet"

text \<open>The governance contract a test token is registered with.\<close>

definition sample_governance :: contract where
  "sample_governance = new_Contract (Some ''0x04'') function_only_abi sample_wallet"

text \<open>Etherscan never finds the contract's code.\<close>

definition unlocatable_world :: world where
  "unlocatable_world =
     sample_world\<lparr> post_reply :=
       (\<lambda>tr. Inr \<lparr> status = 0, message = ''NOTOK'',
                   result = ''Unable to locate ContractCode at 0x04'' \<rparr>) \<rparr>"

text \<open>Etherscan refuses the submission for another reason.\<close>

definition rejecting_world :: world where
  "rejecting_world =
     sample_world\<lparr> post_reply :=
       (\<lambda>tr. Inr \<lparr> status = 0, message = ''NOTOK'', result = ''Invalid API Key'' \<rparr>) \<rparr>"




text \<open>No environment variable is set.\<close>

definition empty_env :: "string \<Rightarrow> string option" where
  "empty_env = (\<lambda>name. None)"

definition bare_world :: world where
  "bare_world = sample_world\<lparr> env := empty_env \<rparr>"

definition bare_deployer :: deployer where
  "bare_deployer = Deployer sample_artifacts empty_env sample_wallet False"

section \<open>Properties\<close>

declare checkverifystatus_loop.simps [simp del]

lemmas sample_defs =
  sample_world_def sample_deployer_def Deployer_def sample_env_def sample_wallet_def
  sample_artifacts_def sample_code_def proxy_abi_def gatekeeper_abi_def function_only_abi_def

lemmas args_defs =
  encodedConstructorArgs_def constructorArgs_def encodedInitializationArgs_def
  initializationArgs_def HashZero_def

lemmas request_defs =
  contractPath_def etherscanApiUrl_def verifysourcecode_data_def checkverifystatus_url_def

lemmas io_defs =
  deployContract_def call_def wait_def Axios_post_def Axios_get_def sleep_def call_and_wait_def

subsection \<open>The polling loop\<close>

text \<open>
  From any trace and any counter, the loop only appends polls of the status address, each
  followed by a pause of five seconds when the answer was pending; it polls at most
  \<open>retriesLeft\<close> times, and goes on only after a pending answer.
\<close>

lemma checkverifystatus_loop_trace:
  "\<exists>evs. snd (checkverifystatus_loop w guid n st tr) = tr @ evs
     \<and> polls_spaced (checkverifystatus_url guid) 5000 evs
     \<and> length (filter is_get evs) \<le> nat n
     \<and> polled_while_pending w tr evs"
proof (induction w guid n st tr rule: checkverifystatus_loop.induct)
  case (1 w guid n st tr)
  let ?e = "AxiosGet (checkverifystatus_url guid)"
  show ?case
  proof (cases "n > 0")
    case False
    then have "snd (checkverifystatus_loop w guid n st tr) = tr @ []"
      by (subst checkverifystatus_loop.simps) simp
    then show ?thesis by (intro exI [of _ "[]"]) simp
  next
    case pos: True
    show ?thesis
    proof (cases "get_reply w (tr @ [?e])")
      case (Inl err)
      with pos have "snd (checkverifystatus_loop w guid n st tr) = tr @ [?e]"
        by (subst checkverifystatus_loop.simps) (simp add: Axios_get_def)
      with pos show ?thesis by (intro exI [of _ "[?e]"]) simp
    next
      case (Inr st')
      show ?thesis
      proof (cases "includes_str (result st') ''Pending in queue''")
        case False
        with pos Inr have "snd (checkverifystatus_loop w guid n st tr) = tr @ [?e]"
          by (subst checkverifystatus_loop.simps) (simp add: Axios_get_def)
        with pos show ?thesis by (intro exI [of _ "[?e]"]) simp
      next
        case True
        from pos Inr True have unfolded: "checkverifystatus_loop w guid n st tr =
            checkverifystatus_loop w guid (n - 1) (Some st') (sleep 5000 (tr @ [?e]))"
          by (subst checkverifystatus_loop.simps) (simp add: Axios_get_def)
        have "Axios_get w (checkverifystatus_url guid) tr = (Inr st', tr @ [?e])"
          using Inr by (simp add: Axios_get_def)
        from "1.IH" [OF pos this [symmetric] refl] True
        obtain evs where
          evs: "snd (checkverifystatus_loop w guid (n - 1) (Some st') (sleep 5000 (tr @ [?e])))
                  = sleep 5000 (tr @ [?e]) @ evs"
            "polls_spaced (checkverifystatus_url guid) 5000 evs"
            "length (filter is_get evs) \<le> nat (n - 1)"
            "polled_while_pending w (sleep 5000 (tr @ [?e])) evs"
          by auto
        have "pending_at w (tr @ [?e])"
          using Inr True by (simp add: pending_at_def)
        with evs pos unfolded show ?thesis
          by (intro exI [of _ "?e # Sleep 5000 # evs"]) (simp add: sleep_def)
      qed
    qed
  qed
qed

subsection \<open>Retrying the submission\<close>

text \<open>
  A submission that Etherscan answers with "Unable to locate ContractCode" is followed by
  a pause of 15 seconds and by the same call again, from the longer trace: the counter
  plays no part.
\<close>

lemma unlocatable_submission_is_repeated:
  assumes "getSolidityInput w (contractPath n) = Inr src"
    and "encodedConstructorArgs w d n = Inr ca"
    and "post_reply w (tr @ [AxiosPost (etherscanApiUrl w) (verifysourcecode_data w d n src ca)])
           = Inr r"
    and "status r \<noteq> 1"
    and "includes_str (result r) ''Unable to locate ContractCode''"
  shows "publishSourceCodeToEtherscan w d n tr =
         publishSourceCodeToEtherscan w d n
           (tr @ [AxiosPost (etherscanApiUrl w) (verifysourcecode_data w d n src ca), Sleep 15000])"
  using assms
  by (subst publishSourceCodeToEtherscan.simps) (simp add: Axios_post_def sleep_def)

text \<open>
  C1 (the code does not do what the claim says). The claim: when the submission is
  answered with a status other than 1 and the text "Unable to locate ContractCode", it is
  retried at most 20 times in all, each time after 15 seconds, and the function then
  returns. In the source the counter \<open>retriesLeft\<close> is a local that every call sets to
  20 again, so its test never fails: against an Etherscan that never finds the code the
  function calls itself for ever. The run is the value \<open>None\<close>: it never returns.
\<close>

theorem publishSourceCodeToEtherscan_never_returns:
  "publishSourceCodeToEtherscan unlocatable_world sample_deployer ''Governance'' [] = None"
proof -
  have never: "\<not> (w = unlocatable_world \<and> d = sample_deployer \<and> n = ''Governance'')"
    if run: "publishSourceCodeToEtherscan w d n tr = Some y" for w d n tr y
  proof (rule publishSourceCodeToEtherscan.raw_induct
      [where P = "\<lambda>w d n tr y. \<not> (w = unlocatable_world \<and> d = sample_deployer \<and> n = ''Governance'')",
        OF _ run], goal_cases)
    case (1 publish w d n tr y)
    show ?case
    proof
      assume "w = unlocatable_world \<and> d = sample_deployer \<and> n = ''Governance''"
      with 1(2) have "publish unlocatable_world sample_deployer ''Governance''
           (sleep 15000 (tr @ [AxiosPost (etherscanApiUrl unlocatable_world)
               (verifysourcecode_data unlocatable_world sample_deployer ''Governance'' ''{}''
                  (Some ''ee''))])) = Some y"
        by (simp add: unlocatable_world_def sample_defs args_defs Axios_post_def contractPath_def)
      with 1(1) show False by blast
    qed
  qed
  show ?thesis
  proof (cases "publishSourceCodeToEtherscan unlocatable_world sample_deployer ''Governance'' []")
    case None
    then show ?thesis .
  next
    case (Some y)
    with never show ?thesis by blast
  qed
qed

subsection \<open>Polling the verification status\<close>

lemma polls_spaced_no_post: "polls_spaced url ms evs \<Longrightarrow> AxiosPost u x \<notin> set evs"
  by (induction url ms evs rule: polls_spaced.induct) auto



subsection \<open>A submission that fails for another reason\<close>

text \<open>
  C7. When the submission is answered with a status other than 1 and a result that does
  not contain "Unable to locate ContractCode", \<open>publishSourceCodeToEtherscan\<close> writes the
  answer as it is to the console and returns normally: after the one submission there
  is no pause, no second submission and no exception.
\<close>

theorem other_failure_logged_not_retried:
  assumes src: "getSolidityInput w (contractPath n) = Inr src"
    and ca: "encodedConstructorArgs w d n = Inr ca"
    and post: "post_reply w (tr @ [AxiosPost (etherscanApiUrl w) (verifysourcecode_data w d n src ca)])
                 = Inr r"
    and ko: "status r \<noteq> 1"
    and other: "\<not> includes_str (result r) ''Unable to locate ContractCode''"
  shows "publishSourceCodeToEtherscan w d n tr =
        Some (Inr (), tr @ [AxiosPost (etherscanApiUrl w) (verifysourcecode_data w d n src ca),
                            ConsoleLog (''Problem publishing '' @ n @ '':'') (Some r)])"
  using assms by (subst publishSourceCodeToEtherscan.simps) (simp add: Axios_post_def)

theorem other_failure_logged_not_retried_witness:
  "getSolidityInput rejecting_world (contractPath ''Governance'') = Inr ''{}''
   \<and> encodedConstructorArgs rejecting_world sample_deployer ''Governance'' = Inr (Some ''ee'')
   \<and> \<not> includes_str ''Invalid API Key'' ''Unable to locate ContractCode''
   \<and> publishSourceCodeToEtherscan rejecting_world sample_deployer ''Governance'' [] =
       Some (Inr (),
         [AxiosPost ''https://api-rinkeby.etherscan.io/api''
            (verifysourcecode_data rejecting_world sample_deployer ''Governance'' ''{}'' (Some ''ee'')),
          ConsoleLog ''Problem publishing Governance:''
            (Some \<lparr>status = 0, message = ''NOTOK'', result = ''Invalid API Key''\<rparr>)])"
proof -
  have h1: "getSolidityInput rejecting_world (contractPath ''Governance'') = Inr ''{}''"
    by (simp add: rejecting_world_def sample_world_def)
  have h2: "encodedConstructorArgs rejecting_world sample_deployer ''Governance'' = Inr (Some ''ee'')"
    by (simp add: rejecting_world_def sample_defs args_defs)
  have h3: "post_reply rejecting_world ([] @ [AxiosPost (etherscanApiUrl rejecting_world)
        (verifysourcecode_data rejecting_world sample_deployer ''Governance'' ''{}'' (Some ''ee''))])
      = Inr \<lparr>status = 0, message = ''NOTOK'', result = ''Invalid API Key''\<rparr>"
    by (simp add: rejecting_world_def sample_world_def)
  have h4: "status \<lparr>status = 0, message = ''NOTOK'', result = ''Invalid API Key''\<rparr> \<noteq> 1"
    by simp
  have h5: "\<not> includes_str (result \<lparr>status = 0, message = ''NOTOK'', result = ''Invalid API Key''\<rparr>)
      ''Unable to locate ContractCode''"
    by simp
  have u: "etherscanApiUrl rejecting_world = ''https://api-rinkeby.etherscan.io/api''"
    by (simp add: etherscanApiUrl_def rejecting_world_def sample_world_def sample_env_def)
  from other_failure_logged_not_retried [OF h1 h2 h3 h4 h5] h1 h2 h5 u show ?thesis by simp
qed

subsection \<open>Addresses and keys come from the environment\<close>

text \<open>Every submission that a run of \<open>publishSourceCodeToEtherscan\<close> adds carries the key.\<close>

lemma publish_apikey:
  assumes run: "publishSourceCodeToEtherscan w d n tr = Some y"
  shows "AxiosPost u x \<in> set (snd y) \<longrightarrow>
           AxiosPost u x \<in> set tr \<or> apikey x = env w ''ETHERSCAN_API_KEY''"
proof (rule publishSourceCodeToEtherscan.raw_induct
    [where P = "\<lambda>w d n tr y. AxiosPost u x \<in> set (snd y) \<longrightarrow>
        AxiosPost u x \<in> set tr \<or> apikey x = env w ''ETHERSCAN_API_KEY''", OF _ run], goal_cases)
  case (1 publish w d n tr y)
  show ?case
  proof (cases "getSolidityInput w (contractPath n)")
    case (Inl e)
    with 1(2) show ?thesis by auto
  next
    case src: (Inr src)
    show ?thesis
    proof (cases "encodedConstructorArgs w d n")
      case (Inl e)
      with 1(2) src show ?thesis by auto
    next
      case ca: (Inr ca)
      let ?p = "AxiosPost (etherscanApiUrl w) (verifysourcecode_data w d n src ca)"
      have key: "apikey (verifysourcecode_data w d n src ca) = env w ''ETHERSCAN_API_KEY''"
        by (simp add: verifysourcecode_data_def)
      show ?thesis
      proof (cases "post_reply w (tr @ [?p])")
        case (Inl e)
        with 1(2) src ca key show ?thesis by (auto simp: Axios_post_def)
      next
        case r: (Inr r)
        obtain evs where
          evs: "snd (checkverifystatus_loop w (result r) 10 None (tr @ [?p])) = (tr @ [?p]) @ evs"
            "polls_spaced (checkverifystatus_url (result r)) 5000 evs"
          using checkverifystatus_loop_trace [of w "result r" 10 None "tr @ [?p]"] by blast
        have nopost: "AxiosPost u x \<notin> set evs"
          using evs(2) by (rule polls_spaced_no_post)
        show ?thesis
        proof (cases "status r \<noteq> 1")
          case ko: True
          show ?thesis
          proof (cases "includes_str (result r) ''Unable to locate ContractCode''")
            case True
            with 1(2) src ca r ko have "publish w d n (sleep 15000 (tr @ [?p])) = Some y"
              by (simp add: Axios_post_def)
            from 1(1) [OF this] key show ?thesis by (auto simp: sleep_def)
          next
            case False
            with 1(2) src ca r ko key show ?thesis by (auto simp: Axios_post_def)
          qed
        next
          case False
          with 1(2) src ca r evs(1) nopost key show ?thesis
            by (auto simp: Axios_post_def split: prod.splits sum.splits)
        qed
      qed
    qed
  qed
qed

text \<open>
  C8. In a freshly constructed \<open>Deployer\<close> each of the seven addresses is the value of
  its environment variable (\<open>GOVERNANCE_TARGET_ADDR\<close>, \<open>VERIFIER_TARGET_ADDR\<close>,
  \<open>CONTRACT_TARGET_ADDR\<close>, \<open>GOVERNANCE_ADDR\<close>, \<open>VERIFIER_ADDR\<close>, \<open>CONTRACT_ADDR\<close>,
  \<open>UPGRADE_GATEKEEPER_ADDR\<close>), and the request that \<open>publishSourceCodeToEtherscan\<close>
  builds, as well as every submission in the trace of a run of it, carries the value of
  \<open>ETHERSCAN_API_KEY\<close> as its API key.
\<close>

theorem addresses_and_apikey_from_environment:
  "addresses (Deployer arts (env w) wl isTest) ''GovernanceTarget'' = env w ''GOVERNANCE_TARGET_ADDR''
   \<and> addresses (Deployer arts (env w) wl isTest) ''VerifierTarget'' = env w ''VERIFIER_TARGET_ADDR''
   \<and> addresses (Deployer arts (env w) wl isTest) ''FranklinTarget'' = env w ''CONTRACT_TARGET_ADDR''
   \<and> addresses (Deployer arts (env w) wl isTest) ''Governance'' = env w ''GOVERNANCE_ADDR''
   \<and> addresses (Deployer arts (env w) wl isTest) ''Verifier'' = env w ''VERIFIER_ADDR''
   \<and> addresses (Deployer arts (env w) wl isTest) ''Franklin'' = env w ''CONTRACT_ADDR''
   \<and> addresses (Deployer arts (env w) wl isTest) ''UpgradeGatekeeper''
        = env w ''UPGRADE_GATEKEEPER_ADDR''
   \<and> (publishSourceCodeToEtherscan w d n [] = Some (res, tr') \<longrightarrow> AxiosPost u x \<in> set tr' \<longrightarrow>
        apikey x = env w ''ETHERSCAN_API_KEY'')
   \<and> apikey (verifysourcecode_data w d n src ca) = env w ''ETHERSCAN_API_KEY''"
proof -
  have "publishSourceCodeToEtherscan w d n [] = Some (res, tr') \<longrightarrow> AxiosPost u x \<in> set tr' \<longrightarrow>
        apikey x = env w ''ETHERSCAN_API_KEY''"
    using publish_apikey [of w d n "[]" "(res, tr')" u x] by simp
  then show ?thesis by (simp add: Deployer_def verifysourcecode_data_def)
qed

lemma sample_publish:
  "publishSourceCodeToEtherscan sample_world sample_deployer ''Governance'' [] =
     Some (Inr (),
       [AxiosPost ''https://api-rinkeby.etherscan.io/api''
          \<lparr>apikey = Some ''KEY'', module_field = ''contract'',
            action = ''verifysourcecode'', contractaddress = Some ''0x04'',
            sourceCode = ''{}'',
            codeformat = ''solidity-standard-json-input'',
            contractname_field = ''contracts/Governance.sol:Governance'',
            compilerversion = ''v0.5.16+commit.9c3226ce'',
            constructorArguements = Some ''ee''\<rparr>,
        AxiosGet ''http://api.etherscan.io/api?module=contract&&action=checkverifystatus&&guid=guid'',
        Sleep 5000,
        AxiosGet ''http://api.etherscan.io/api?module=contract&&action=checkverifystatus&&guid=guid'',
        ConsoleLog
          ''Published Governance sources on https://rinkeby.etherscan.io/address/0x04 with status''
          (Some \<lparr>status = 1, message = ''OK'', result = ''Pass - Verified''\<rparr>)])"
  by (subst publishSourceCodeToEtherscan.simps)
     (simp add: sample_defs args_defs request_defs io_defs checkverifystatus_loop.simps)

theorem addresses_and_apikey_from_environment_witness:
  "addresses sample_deployer ''Governance'' = Some ''0x04''
   \<and> env sample_world ''GOVERNANCE_ADDR'' = Some ''0x04''
   \<and> env sample_world ''ETHERSCAN_API_KEY'' = Some ''KEY''
   \<and> (\<exists>res tr' u x.
         publishSourceCodeToEtherscan sample_world sample_deployer ''Governance'' [] = Some (res, tr')
         \<and> AxiosPost u x \<in> set tr' \<and> apikey x = Some ''KEY'')"
proof -
  let ?x = "\<lparr>apikey = Some ''KEY'', module_field = ''contract'',
            action = ''verifysourcecode'', contractaddress = Some ''0x04'',
            sourceCode = ''{}'',
            codeformat = ''solidity-standard-json-input'',
            contractname_field = ''contracts/Governance.sol:Governance'',
            compilerversion = ''v0.5.16+commit.9c3226ce'',
            constructorArguements = Some ''ee''\<rparr>"
  let ?tr = "[AxiosPost ''https://api-rinkeby.etherscan.io/api'' ?x,
        AxiosGet ''http://api.etherscan.io/api?module=contract&&action=checkverifystatus&&guid=guid'',
        Sleep 5000,
        AxiosGet ''http://api.etherscan.io/api?module=contract&&action=checkverifystatus&&guid=guid'',
        ConsoleLog
          ''Published Governance sources on https://rinkeby.etherscan.io/address/0x04 with status''
          (Some \<lparr>status = 1, message = ''OK'', result = ''Pass - Verified''\<rparr>)]"
  note inst = addresses_and_apikey_from_environment
      [of sample_artifacts sample_world sample_wallet False sample_deployer "''Governance''"
        "Inr ()" ?tr "''https://api-rinkeby.etherscan.io/api''" ?x]
  have e: "env sample_world = sample_env"
    by (simp add: sample_world_def)
  have k: "env sample_world ''ETHERSCAN_API_KEY'' = Some ''KEY''"
    by (simp add: sample_world_def sample_env_def)
  have a: "env sample_world ''GOVERNANCE_ADDR'' = Some ''0x04''"
    by (simp add: sample_world_def sample_env_def)
  from inst have "addresses sample_deployer ''Governance'' = env sample_world ''GOVERNANCE_ADDR''"
    unfolding e sample_deployer_def by blast
  moreover from inst sample_publish have "apikey ?x = env sample_world ''ETHERSCAN_API_KEY''"
    by simp
  ultimately show ?thesis using k a sample_publish
    by (intro conjI exI [of _ "Inr ()"] exI [of _ ?tr]
          exI [of _ "''https://api-rinkeby.etherscan.io/api''"] exI [of _ ?x]) simp_all
qed

subsection \<open>Deploying a target and its proxy\<close>

lemma constructorArgs_Inr:
  assumes "constructorArgs w d name = Inr a"
  shows "\<exists>g v f. encodedInitializationArgs w d ''Governance'' = Inr g
           \<and> encodedInitializationArgs w d ''Verifier'' = Inr v
           \<and> encodedInitializationArgs w d ''Franklin'' = Inr f
           \<and> a = map_of
               [(''GovernanceTarget'', []),
                (''VerifierTarget'', []),
                (''FranklinTarget'', []),
                (''Governance'', [of_opt (addresses d ''GovernanceTarget''), Buffer g]),
                (''Verifier'', [of_opt (addresses d ''VerifierTarget''), Buffer v]),
                (''Franklin'', [of_opt (addresses d ''FranklinTarget''), Buffer f]),
                (''UpgradeGatekeeper'', [of_opt (addresses d ''Franklin'')])] name"
  using assms unfolding constructorArgs_def by (auto split: sum.splits simp del: map_of.simps)










subsection \<open>Wiring the upgrade gatekeeper\<close>

lemma call_and_wait_Inr:
  assumes "call_and_wait w c m a tr = (Inr u, tr')"
  shows "\<exists>t. tr' = tr @ [ContractCall c m a, Wait t]"
  using assms unfolding call_and_wait_def call_def wait_def Let_def
  by (auto split: sum.splits)

lemma transferMastership_of_Inr:
  assumes "transferMastership_of w d name c tr = (Inr u, tr')"
  shows "\<exists>p t. tr' = tr @ [ContractCall p ''transferMastership'' [of_opt (contract_address c)], Wait t]
           \<and> contract_address p = addresses d name"
  using assms unfolding transferMastership_of_def getDeployedContract_def new_Contract_def
  by (auto split: sum.splits option.splits dest!: call_and_wait_Inr)

lemma addUpgradeable_of_Inr:
  assumes "addUpgradeable_of w d c name tr = (Inr u, tr')"
  shows "\<exists>t. tr' = tr @ [ContractCall c ''addUpgradeable'' [of_opt (addresses d name)], Wait t]"
  using assms unfolding addUpgradeable_of_def getDeployedContract_def new_Contract_def
  by (auto split: sum.splits option.splits dest!: call_and_wait_Inr)

text \<open>The events of a run of \<open>deployUpgradeGatekeeper\<close> that returns normally.\<close>

lemma deployUpgradeGatekeeper_events:
  assumes "deployUpgradeGatekeeper w d tr = (Inr c, d', tr')"
  shows "\<exists>p2 p3 p4 t2 t3 t4 t5 t6 t7.
      tr' = tr @
        [DeployContract (wallet d) (bytecodes d ''UpgradeGatekeeper'')
           (Some [of_opt (addresses d ''Franklin'')]) (Some 3000000),
         ContractCall p2 ''transferMastership'' [of_opt (contract_address c)], Wait t2,
         ContractCall p3 ''transferMastership'' [of_opt (contract_address c)], Wait t3,
         ContractCall p4 ''transferMastership'' [of_opt (contract_address c)], Wait t4,
         ContractCall c ''addUpgradeable'' [of_opt (addresses d ''Governance'')], Wait t5,
         ContractCall c ''addUpgradeable'' [of_opt (addresses d ''Verifier'')], Wait t6,
         ContractCall c ''addUpgradeable'' [of_opt (addresses d ''Franklin'')], Wait t7]
      \<and> contract_address p2 = addresses d ''Governance''
      \<and> contract_address p3 = addresses d ''Verifier''
      \<and> contract_address p4 = addresses d ''Franklin''
      \<and> deployContract_reply w
           (tr @ [DeployContract (wallet d) (bytecodes d ''UpgradeGatekeeper'')
                    (Some [of_opt (addresses d ''Franklin'')]) (Some 3000000)]) = Inr c
      \<and> d' = d\<lparr>addresses := (addresses d)(''UpgradeGatekeeper'' := contract_address c)\<rparr>"
proof -
  from assms obtain args tr1 tr2 tr3 tr4 tr5 tr6 u2 u3 u4 u5 u6 u7 where
    args: "constructorArgs w d ''UpgradeGatekeeper'' = Inr args"
    and dep: "deployContract w (wallet d) (bytecodes d ''UpgradeGatekeeper'') args (Some 3000000) tr
                = (Inr c, tr1)"
    and d': "d' = d\<lparr>addresses := (addresses d)(''UpgradeGatekeeper'' := contract_address c)\<rparr>"
    and s2: "transferMastership_of w d' ''Governance'' c tr1 = (Inr u2, tr2)"
    and s3: "transferMastership_of w d' ''Verifier'' c tr2 = (Inr u3, tr3)"
    and s4: "transferMastership_of w d' ''Franklin'' c tr3 = (Inr u4, tr4)"
    and s5: "addUpgradeable_of w d' c ''Governance'' tr4 = (Inr u5, tr5)"
    and s6: "addUpgradeable_of w d' c ''Verifier'' tr5 = (Inr u6, tr6)"
    and s7: "addUpgradeable_of w d' c ''Franklin'' tr6 = (Inr u7, tr')"
    unfolding deployUpgradeGatekeeper_def Let_def
    by (auto split: sum.splits prod.splits)
  from args have a: "args = Some [of_opt (addresses d ''Franklin'')]"
    by (auto dest!: constructorArgs_Inr)
  from dep a
  have tr1: "tr1 = tr @ [DeployContract (wallet d) (bytecodes d ''UpgradeGatekeeper'')
                    (Some [of_opt (addresses d ''Franklin'')]) (Some 3000000)]"
    and reply: "deployContract_reply w
           (tr @ [DeployContract (wallet d) (bytecodes d ''UpgradeGatekeeper'')
                    (Some [of_opt (addresses d ''Franklin'')]) (Some 3000000)]) = Inr c"
    by (auto simp: deployContract_def Let_def)
  from transferMastership_of_Inr [OF s2] transferMastership_of_Inr [OF s3]
    transferMastership_of_Inr [OF s4]
    addUpgradeable_of_Inr [OF s5] addUpgradeable_of_Inr [OF s6] addUpgradeable_of_Inr [OF s7]
  obtain p2 p3 p4 t2 t3 t4 t5 t6 t7 where
    "tr' = tr1 @ [ContractCall p2 ''transferMastership'' [of_opt (contract_address c)], Wait t2,
                 ContractCall p3 ''transferMastership'' [of_opt (contract_address c)], Wait t3,
                 ContractCall p4 ''transferMastership'' [of_opt (contract_address c)], Wait t4,
                 ContractCall c ''addUpgradeable'' [of_opt (addresses d' ''Governance'')], Wait t5,
                 ContractCall c ''addUpgradeable'' [of_opt (addresses d' ''Verifier'')], Wait t6,
                 ContractCall c ''addUpgradeable'' [of_opt (addresses d' ''Franklin'')], Wait t7]"
    "contract_address p2 = addresses d' ''Governance''"
    "contract_address p3 = addresses d' ''Verifier''"
    "contract_address p4 = addresses d' ''Franklin''"
    by auto
  with tr1 reply d' show ?thesis by simp
qed

text \<open>
  C5. Whenever \<open>deployUpgradeGatekeeper\<close> returns normally, the contract it returns is
  the gatekeeper that it deployed with the address of the Franklin proxy as the only
  constructor argument, and what it did on the chain is, in this order: that
  deployment; \<open>transferMastership\<close> to the gatekeeper on the contracts at the Governance,
  Verifier and Franklin addresses, each awaited; \<open>addUpgradeable\<close> on the gatekeeper for
  the Governance, Verifier and Franklin addresses, each awaited. It records the
  gatekeeper's address.
\<close>

theorem gatekeeper_wired_in_order:
  assumes "deployUpgradeGatekeeper w d tr = (Inr c, d', tr')"
  shows "deployContract_reply w
           (tr @ [DeployContract (wallet d) (bytecodes d ''UpgradeGatekeeper'')
                    (Some [of_opt (addresses d ''Franklin'')]) (Some 3000000)]) = Inr c
    \<and> take (length tr) tr' = tr
    \<and> map step_of (drop (length tr) tr') =
        [Deploys (bytecodes d ''UpgradeGatekeeper'') (Some [of_opt (addresses d ''Franklin'')]),
         Calls (addresses d ''Governance'') ''transferMastership'' [of_opt (contract_address c)], Awaits,
         Calls (addresses d ''Verifier'') ''transferMastership'' [of_opt (contract_address c)], Awaits,
         Calls (addresses d ''Franklin'') ''transferMastership'' [of_opt (contract_address c)], Awaits,
         Calls (contract_address c) ''addUpgradeable'' [of_opt (addresses d ''Governance'')], Awaits,
         Calls (contract_address c) ''addUpgradeable'' [of_opt (addresses d ''Verifier'')], Awaits,
         Calls (contract_address c) ''addUpgradeable'' [of_opt (addresses d ''Franklin'')], Awaits]
    \<and> addresses d' ''UpgradeGatekeeper'' = contract_address c"
  using deployUpgradeGatekeeper_events [OF assms] by auto

lemma sample_deployUpgradeGatekeeper:
  "fst (deployUpgradeGatekeeper sample_world sample_deployer []) =
     Inr \<lparr>contract_address = Some ''0xc'', contract_interface = [], signer = sample_wallet,
          deployTransaction = Some \<lparr>hash = ''0xd''\<rparr>\<rparr>"
  by (simp add: deployUpgradeGatekeeper_def transferMastership_of_def addUpgradeable_of_def
        getDeployedContract_def sample_defs args_defs io_defs new_Contract_def)

theorem gatekeeper_wired_in_order_witness:
  "fst (deployUpgradeGatekeeper sample_world sample_deployer []) =
     Inr \<lparr>contract_address = Some ''0xc'', contract_interface = [], signer = sample_wallet,
          deployTransaction = Some \<lparr>hash = ''0xd''\<rparr>\<rparr>
   \<and> map step_of (snd (snd (deployUpgradeGatekeeper sample_world sample_deployer []))) =
        [Deploys (Some (sample_code gatekeeper_abi)) (Some [Str ''0x06'']),
         Calls (Some ''0x04'') ''transferMastership'' [Str ''0xc''], Awaits,
         Calls (Some ''0x05'') ''transferMastership'' [Str ''0xc''], Awaits,
         Calls (Some ''0x06'') ''transferMastership'' [Str ''0xc''], Awaits,
         Calls (Some ''0xc'') ''addUpgradeable'' [Str ''0x04''], Awaits,
         Calls (Some ''0xc'') ''addUpgradeable'' [Str ''0x05''], Awaits,
         Calls (Some ''0xc'') ''addUpgradeable'' [Str ''0x06''], Awaits]"
proof -
  let ?c = "\<lparr>contract_address = Some ''0xc'', contract_interface = [], signer = sample_wallet,
          deployTransaction = Some \<lparr>hash = ''0xd''\<rparr>\<rparr>"
  let ?X = "deployUpgradeGatekeeper sample_world sample_deployer []"
  have run: "?X = (Inr ?c, fst (snd ?X), snd (snd ?X))"
    using sample_deployUpgradeGatekeeper by (simp add: prod_eq_iff)
  have "map step_of (drop (length ([] :: event list)) (snd (snd ?X))) =
        [Deploys (bytecodes sample_deployer ''UpgradeGatekeeper'')
           (Some [of_opt (addresses sample_deployer ''Franklin'')]),
         Calls (addresses sample_deployer ''Governance'') ''transferMastership''
           [of_opt (contract_address ?c)], Awaits,
         Calls (addresses sample_deployer ''Verifier'') ''transferMastership''
           [of_opt (contract_address ?c)], Awaits,
         Calls (addresses sample_deployer ''Franklin'') ''transferMastership''
           [of_opt (contract_address ?c)], Awaits,
         Calls (contract_address ?c) ''addUpgradeable''
           [of_opt (addresses sample_deployer ''Governance'')], Awaits,
         Calls (contract_address ?c) ''addUpgradeable''
           [of_opt (addresses sample_deployer ''Verifier'')], Awaits,
         Calls (contract_address ?c) ''addUpgradeable''
           [of_opt (addresses sample_deployer ''Franklin'')], Awaits]"
    using gatekeeper_wired_in_order [OF run] by blast
  then show ?thesis
    using sample_deployUpgradeGatekeeper by (simp add: sample_defs)
qed

subsection \<open>Awaiting receipts\<close>

text \<open>Every transaction of \<open>deployUpgradeGatekeeper\<close> is awaited before the next step.\<close>

lemma deployUpgradeGatekeeper_receipts_awaited:
  assumes "deployUpgradeGatekeeper w d tr = (Inr c, d', tr')"
  shows "receipts_awaited (drop (length tr) tr')"
  using deployUpgradeGatekeeper_events [OF assms] by auto

text \<open>
  C3 (the code does not do what the claim says). The claim: the receipt of every
  transaction that the script submits, a \<open>mint\<close> included, is awaited before the next
  step. \<open>addTestERC20Token\<close> awaits only the submission of its \<open>mint\<close> and goes on to
  submit \<open>addToken\<close>; \<open>addTestNotApprovedERC20Token\<close> returns right after submitting its
  \<open>mint\<close>. \<open>mintTestERC20Token\<close> does wait for the receipt of the same call. On a chain
  that accepts everything:
\<close>

theorem mint_receipt_not_awaited:
  "map step_of
     (snd (addTestERC20Token sample_world sample_artifacts sample_wallet sample_governance [])) =
     [Deploys (Some (sample_code function_only_abi)) (Some []),
      Calls (Some ''0xc'') ''mint'' [Str ''0xaa'', BigNumber 3000000000000000000000000000],
      Calls (Some ''0x04'') ''addToken'' [Str ''0xc''],
      Awaits]
   \<and> \<not> receipts_awaited
         (snd (addTestERC20Token sample_world sample_artifacts sample_wallet sample_governance []))
   \<and> map step_of (snd (addTestNotApprovedERC20Token sample_world sample_artifacts sample_wallet [])) =
     [Deploys (Some (sample_code function_only_abi)) (Some []),
      Calls (Some ''0xc'') ''mint'' [Str ''0xaa'', BigNumber 1000000000]]
   \<and> \<not> receipts_awaited
         (snd (addTestNotApprovedERC20Token sample_world sample_artifacts sample_wallet []))
   \<and> map step_of (snd (mintTestERC20Token sample_world sample_wallet sample_token [])) =
     [Calls (Some ''0x0e'') ''mint'' [Str ''0xaa'', BigNumber 3000000000000000000000000000], Awaits]
   \<and> receipts_awaited (snd (mintTestERC20Token sample_world sample_wallet sample_token []))"
  by (simp add: addTestERC20Token_def addTestERC20Token_try_def
        addTestNotApprovedERC20Token_def addTestNotApprovedERC20Token_try_def
        mintTestERC20Token_def mintTestERC20Token_try_def
        sample_governance_def sample_token_def new_Contract_def
        sample_defs io_defs parseEther_def bigNumberify_def)

subsection \<open>Errors of the test-token functions\<close>




subsection \<open>The initialization arguments of Franklin\<close>

text \<open>
  C9. The initialization arguments of Franklin are four values of the types \<open>address\<close>,
  \<open>address\<close>, \<open>address\<close>, \<open>bytes32\<close>: the Governance address, the Verifier address, the
  value of \<open>OPERATOR_FRANKLIN_ADDRESS\<close> and the genesis root, in this order; the genesis
  root is the value of \<open>GENESIS_ROOT\<close> when that is set and not empty, and the zero hash
  (\<open>0x\<close> and 64 zeros) otherwise.
\<close>

theorem franklin_initializationArgs:
  "initializationArgs w d ''Franklin'' =
     Some ([''address'', ''address'', ''address'', ''bytes32''],
       [of_opt (addresses d ''Governance''),
        of_opt (addresses d ''Verifier''),
        of_opt (env w ''OPERATOR_FRANKLIN_ADDRESS''),
        Str (case env w ''GENESIS_ROOT'' of
               None \<Rightarrow> HashZero
             | Some g \<Rightarrow> if g = [] then HashZero else g)])
   \<and> HashZero = ''0x0000000000000000000000000000000000000000000000000000000000000000''"
  by (simp add: initializationArgs_def HashZero_def eval_nat_numeral split: option.splits)

subsection \<open>The encoded constructor arguments\<close>

text \<open>
  C10 (as stated, the claim is false: see the counterexample below). Amended: for every
  contract name that has an entry in the deployer's \<open>bytecodes\<close>, when building the table
  of constructor arguments throws nothing: \<open>encodedConstructorArgs\<close> returns \<open>null\<close> when
  the contract's ABI has no entry of type \<open>constructor\<close>; otherwise it has the ABI coder
  encode the constructor arguments for the inputs of the first such entry, and when the
  coder returns a string it returns that string without its first two characters (so
  without the leading \<open>0x\<close> of a string that starts with \<open>0x\<close>), and when the coder
  throws it throws the same error. When building the table of constructor arguments
  throws, it throws the same error, whatever the name and the ABI; when the table is
  built and the name has no entry in \<open>bytecodes\<close>, it throws a \<open>TypeError\<close>.
\<close>

theorem encodedConstructorArgs_by_cases:
  "(\<forall>e. constructorArgs w d contractName = Inl e \<longrightarrow>
       encodedConstructorArgs w d contractName = Inl e)
   \<and> (\<forall>args. constructorArgs w d contractName = Inr args \<and> bytecodes d contractName = None \<longrightarrow>
       encodedConstructorArgs w d contractName =
         Inl (TypeError ''Cannot read property abi of undefined''))
   \<and> (\<forall>args code. constructorArgs w d contractName = Inr args
         \<and> bytecodes d contractName = Some code \<longrightarrow>
       (\<not> (\<exists>i \<in> set (abi code). entry_type i = ''constructor'') \<longrightarrow>
          encodedConstructorArgs w d contractName = Inr None)
       \<and> (\<forall>i rest. filter (\<lambda>i. entry_type i = ''constructor'') (abi code) = i # rest \<longrightarrow>
            (\<forall>e. defaultAbiCoder_encode w (inputs i) args = Inl e \<longrightarrow>
               encodedConstructorArgs w d contractName = Inl e)
            \<and> (\<forall>encoded. defaultAbiCoder_encode w (inputs i) args = Inr encoded \<longrightarrow>
               encodedConstructorArgs w d contractName = Inr (Some (drop 2 encoded)))
            \<and> (\<forall>hex. defaultAbiCoder_encode w (inputs i) args = Inr (''0x'' @ hex) \<longrightarrow>
               encodedConstructorArgs w d contractName = Inr (Some hex))))"
proof -
  have no_constructor: "filter (\<lambda>i. entry_type i = ''constructor'') (abi code) = []"
    if "\<not> (\<exists>i \<in> set (abi code). entry_type i = ''constructor'')" for code
    using that by (simp add: filter_empty_conv)
  show ?thesis
    by (auto simp: encodedConstructorArgs_def no_constructor)
qed

text \<open>The proxy of Governance has a constructor, its target has none.\<close>

theorem encodedConstructorArgs_by_cases_witness:
  "bytecodes sample_deployer ''Governance'' = Some (sample_code proxy_abi)
   \<and> constructorArgs sample_world sample_deployer ''Governance''
        = Inr (Some [Str ''0x01'', Buffer [32]])
   \<and> encodedConstructorArgs sample_world sample_deployer ''Governance'' = Inr (Some ''ee'')
   \<and> bytecodes sample_deployer ''GovernanceTarget'' = Some (sample_code function_only_abi)
   \<and> constructorArgs sample_world sample_deployer ''GovernanceTarget'' = Inr (Some [])
   \<and> encodedConstructorArgs sample_world sample_deployer ''GovernanceTarget'' = Inr None
   \<and> bytecodes sample_deployer ''Foo'' = None
   \<and> constructorArgs sample_world sample_deployer ''Foo'' = Inr None
   \<and> encodedConstructorArgs sample_world sample_deployer ''Foo'' =
       Inl (TypeError ''Cannot read property abi of undefined'')
   \<and> constructorArgs bare_world bare_deployer ''GovernanceTarget'' =
       Inl (TypeError ''Cannot read property toString of undefined'')
   \<and> encodedConstructorArgs bare_world bare_deployer ''GovernanceTarget'' =
       Inl (TypeError ''Cannot read property toString of undefined'')"
proof -
  have k1: "bytecodes sample_deployer ''Governance'' = Some (sample_code proxy_abi)"
    by (simp add: sample_defs)
  have a1: "constructorArgs sample_world sample_deployer ''Governance''
              = Inr (Some [Str ''0x01'', Buffer [32]])"
    by (simp add: sample_defs args_defs)
  have k2: "bytecodes sample_deployer ''GovernanceTarget'' = Some (sample_code function_only_abi)"
    by (simp add: sample_defs)
  have a2: "constructorArgs sample_world sample_deployer ''GovernanceTarget'' = Inr (Some [])"
    by (simp add: sample_defs args_defs)
  have k3: "bytecodes sample_deployer ''Foo'' = None"
    by (simp add: sample_defs)
  have a3: "constructorArgs sample_world sample_deployer ''Foo'' = Inr None"
    by (simp add: sample_defs args_defs)
  have a4: "constructorArgs bare_world bare_deployer ''GovernanceTarget'' =
       Inl (TypeError ''Cannot read property toString of undefined'')"
    by (simp add: bare_world_def bare_deployer_def empty_env_def sample_defs args_defs)
  have f: "filter (\<lambda>i. entry_type i = ''constructor'') (abi (sample_code proxy_abi)) =
      \<lparr> entry_type = ''constructor'',
        inputs = [\<lparr> param_name = ''target'', param_type = ''address'' \<rparr>,
                  \<lparr> param_name = ''targetInitializationParameters'', param_type = ''bytes'' \<rparr>] \<rparr> # []"
    by (simp add: sample_code_def proxy_abi_def)
  have e: "defaultAbiCoder_encode sample_world
       (inputs \<lparr> entry_type = ''constructor'',
        inputs = [\<lparr> param_name = ''target'', param_type = ''address'' \<rparr>,
                  \<lparr> param_name = ''targetInitializationParameters'', param_type = ''bytes'' \<rparr>] \<rparr>)
       (Some [Str ''0x01'', Buffer [32]]) = Inr (''0x'' @ ''ee'')"
    by (simp add: sample_world_def)
  have n: "\<not> (\<exists>i \<in> set (abi (sample_code function_only_abi)). entry_type i = ''constructor'')"
    by (simp add: sample_code_def function_only_abi_def)
  from encodedConstructorArgs_by_cases [of sample_world sample_deployer "''Governance''"] k1 a1 f e
  have r1: "encodedConstructorArgs sample_world sample_deployer ''Governance'' = Inr (Some ''ee'')"
    by blast
  from encodedConstructorArgs_by_cases [of sample_world sample_deployer "''GovernanceTarget''"] k2 a2 n
  have r2: "encodedConstructorArgs sample_world sample_deployer ''GovernanceTarget'' = Inr None"
    by blast
  from encodedConstructorArgs_by_cases [of sample_world sample_deployer "''Foo''"] k3 a3
  have r3: "encodedConstructorArgs sample_world sample_deployer ''Foo'' =
       Inl (TypeError ''Cannot read property abi of undefined'')"
    by blast
  from encodedConstructorArgs_by_cases [of bare_world bare_deployer "''GovernanceTarget''"] a4
  have r4: "encodedConstructorArgs bare_world bare_deployer ''GovernanceTarget'' =
       Inl (TypeError ''Cannot read property toString of undefined'')"
    by blast
  from k1 a1 r1 k2 a2 r2 k3 a3 r3 a4 r4 show ?thesis by simp
qed

text \<open>
  The table of constructor arguments is built whole before one entry is read. With no
  environment variable set and an encoder that refuses an undefined address, the
  initialization arguments of Franklin cannot be encoded: for \<open>GovernanceTarget\<close>, a
  contract of the deployer whose ABI has no entry of type \<open>constructor\<close>, the function
  throws instead of returning \<open>null\<close>.
\<close>

theorem encodedConstructorArgs_throws_for_target:
  "bytecodes bare_deployer ''GovernanceTarget'' = Some (sample_code function_only_abi)
   \<and> abi (sample_code function_only_abi) = [\<lparr> entry_type = ''function'', inputs = [] \<rparr>]
   \<and> encodedConstructorArgs bare_world bare_deployer ''GovernanceTarget'' =
       Inl (TypeError ''Cannot read property toString of undefined'')"
  by (simp add: bare_world_def bare_deployer_def empty_env_def sample_defs args_defs)

text \<open>A name without an entry in \<open>bytecodes\<close> has no ABI to look at.\<close>

lemma encodedConstructorArgs_unknown_name_throws:
  "encodedConstructorArgs sample_world sample_deployer ''Foo'' =
     Inl (TypeError ''Cannot read property abi of undefined'')"
  by (simp add: sample_defs args_defs)

end
